theory Spec2Isabelle
  imports Main "HOL-Library.AList" "HOL-Library.Multiset"
begin

section \<open>Python values and their classes\<close>

text \<open>
  The validator inspects values only through \<open>isinstance\<close>, \<open>type\<close>, iteration over a
  list and the \<open>keys()\<close> / \<open>values()\<close> of a dict. The value universe below covers the
  built-in kinds the validator distinguishes, and instances of user-defined classes
  (single inheritance from \<open>object\<close>, possibly defining \<open>__call__\<close>). User classes
  deriving from a built-in container are not part of the model.
\<close>

datatype userclass =
  UserClass (uc_name: string) (uc_defines_call: bool) (uc_base: "userclass option")

datatype pyclass =
    ObjectC | TypeC | NoneTypeC | BoolC | IntC | FloatC | StrC
  | ListC | TupleC | DictC | RangeC
  | FunctionC | BuiltinFunctionC | MethodC
  | UserC userclass

datatype pyval =
    VNone
  | VBool bool
  | VInt int
  | VFloat int int
  | VStr string
  | VList "pyval list"
  | VTuple "pyval list"
  | VDict "(pyval \<times> pyval) list"
  | VRange int int int
  | VFunction string
  | VBuiltinFunction string
  | VMethod string
  | VClass pyclass
  | VInstance userclass

text \<open>\<open>type(value)\<close>.\<close>

fun type_of :: "pyval \<Rightarrow> pyclass" where
  "type_of VNone = NoneTypeC"
| "type_of (VBool _) = BoolC"
| "type_of (VInt _) = IntC"
| "type_of (VFloat _ _) = FloatC"
| "type_of (VStr _) = StrC"
| "type_of (VList _) = ListC"
| "type_of (VTuple _) = TupleC"
| "type_of (VDict _) = DictC"
| "type_of (VRange _ _ _) = RangeC"
| "type_of (VFunction _) = FunctionC"
| "type_of (VBuiltinFunction _) = BuiltinFunctionC"
| "type_of (VMethod _) = MethodC"
| "type_of (VClass _) = TypeC"
| "type_of (VInstance u) = UserC u"

text \<open>The method resolution order: a class, its bases, \<open>object\<close>. \<open>bool\<close> derives from \<open>int\<close>.\<close>

fun uc_ancestors :: "userclass \<Rightarrow> userclass list" where
  "uc_ancestors (UserClass n c None) = [UserClass n c None]"
| "uc_ancestors (UserClass n c (Some b)) = UserClass n c (Some b) # uc_ancestors b"

fun mro :: "pyclass \<Rightarrow> pyclass list" where
  "mro ObjectC = [ObjectC]"
| "mro BoolC = [BoolC, IntC, ObjectC]"
| "mro (UserC u) = map UserC (uc_ancestors u) @ [ObjectC]"
| "mro c = [c, ObjectC]"

definition issubclass :: "pyclass \<Rightarrow> pyclass \<Rightarrow> bool" where
  "issubclass c t = (t \<in> set (mro c))"

definition isinstance :: "pyval \<Rightarrow> pyclass \<Rightarrow> bool" where
  "isinstance v t = issubclass (type_of v) t"

text \<open>
  \<open>callable(value)\<close>: the class of the value, or one of its bases, provides \<open>__call__\<close>.
  Functions, built-in functions, bound methods and classes are callable; an instance of a
  user class is callable when the class defines \<open>__call__\<close>.
\<close>

fun uc_has_call :: "userclass \<Rightarrow> bool" where
  "uc_has_call (UserClass n c None) = c"
| "uc_has_call (UserClass n c (Some b)) = (c \<or> uc_has_call b)"

fun callable :: "pyval \<Rightarrow> bool" where
  "callable (VFunction _) = True"
| "callable (VBuiltinFunction _) = True"
| "callable (VMethod _) = True"
| "callable (VClass _) = True"
| "callable (VInstance u) = uc_has_call u"
| "callable _ = False"

text \<open>\<open>str(cls)\<close> of a class object, as in \<open><class 'int'>\<close>.\<close>

fun class_name :: "pyclass \<Rightarrow> string" where
  "class_name ObjectC = ''object''"
| "class_name TypeC = ''type''"
| "class_name NoneTypeC = ''NoneType''"
| "class_name BoolC = ''bool''"
| "class_name IntC = ''int''"
| "class_name FloatC = ''float''"
| "class_name StrC = ''str''"
| "class_name ListC = ''list''"
| "class_name TupleC = ''tuple''"
| "class_name DictC = ''dict''"
| "class_name RangeC = ''range''"
| "class_name FunctionC = ''function''"
| "class_name BuiltinFunctionC = ''builtin_function_or_method''"
| "class_name MethodC = ''method''"
| "class_name (UserC u) = uc_name u"

definition str_class :: "pyclass \<Rightarrow> string" where
  "str_class c = ''<class '' @ [CHR 0x27] @ class_name c @ [CHR 0x27] @ ''>''"

section \<open>Type annotations\<close>

text \<open>
  A field's declared type is one of three kinds of object, told apart by
  \<open>_validate_types\<close>: a class (\<open>isinstance(expected_type, type)\<close>), a
  \<open>typing._GenericAlias\<close> with its \<open>_name\<close>, \<open>__args__\<close> and \<open>str()\<close>, or anything
  else (a forward reference written as a string, a type variable, a special form),
  of which only \<open>str()\<close> is kept.
\<close>

datatype annotation =
    Class pyclass
  | GenericAlias (alias_name: "string option") (alias_args: "annotation list") (alias_str: string)
  | OtherAnnotation string

fun str_annotation :: "annotation \<Rightarrow> string" where
  "str_annotation (Class c) = str_class c"
| "str_annotation (GenericAlias n args s) = s"
| "str_annotation (OtherAnnotation s) = s"

text \<open>\<open>str(x)\<close> for \<open>x\<close> an optional name: \<open>None\<close> prints as \<open>None\<close>.\<close>

fun str_name :: "string option \<Rightarrow> string" where
  "str_name None = ''None''"
| "str_name (Some n) = n"

definition startswith :: "string \<Rightarrow> string \<Rightarrow> bool" where
  "startswith s p = (take (length p) s = p)"

section \<open>Exceptions and formatting\<close>

datatype pyexc =
    RuntimeError string
  | IndexError
  | AttributeError string
  | TypeError
  | TypeValidationError string "(string \<times> string) list"

text \<open>
  Two renderings of the Python runtime enter the messages: \<open>f'{value}'\<close> of an arbitrary
  value and \<open>f'{errors}'\<close> of a list of strings. They are parameters of the model.
\<close>

record formatting =
  format_value :: "pyval \<Rightarrow> string"
  format_errors :: "string list \<Rightarrow> string"

text \<open>
  A list comprehension whose element expression may raise: the first exception, in
  iteration order, propagates; otherwise the list of results is returned.
\<close>

fun comprehension :: "(pyexc + 'a) list \<Rightarrow> pyexc + 'a list" where
  "comprehension [] = Inr []"
| "comprehension (r # rs) =
     (case r of
        Inl e \<Rightarrow> Inl e
      | Inr x \<Rightarrow> (case comprehension rs of Inl e \<Rightarrow> Inl e | Inr xs \<Rightarrow> Inr (x # xs)))"

text \<open>
  \<open>any(r is None for r in ...)\<close> over a generator whose elements may raise: evaluation
  stops at the first \<open>None\<close>, and an exception met before that propagates.
\<close>

fun any_is_None :: "(pyexc + string option) list \<Rightarrow> pyexc + bool" where
  "any_is_None [] = Inr False"
| "any_is_None (r # rs) =
     (case r of
        Inl e \<Rightarrow> Inl e
      | Inr None \<Rightarrow> Inr True
      | Inr (Some m) \<Rightarrow> any_is_None rs)"

text \<open>Truth value of an \<open>Optional[str]\<close>: \<open>None\<close> and the empty string are false.\<close>

fun truthy :: "string option \<Rightarrow> bool" where
  "truthy None = False"
| "truthy (Some m) = (m \<noteq> [])"

text \<open>\<open>[x for x in errors if x]\<close>, as a list of strings.\<close>

definition nonempty_errors :: "string option list \<Rightarrow> string list" where
  "nonempty_errors errors = map the (filter truthy errors)"

text \<open>Iteration over a list, and the keys and values of a dict, in insertion order.\<close>

fun list_items :: "pyval \<Rightarrow> pyval list" where
  "list_items (VList xs) = xs"
| "list_items _ = []"

fun dict_keys :: "pyval \<Rightarrow> pyval list" where
  "dict_keys (VDict kvs) = map fst kvs"
| "dict_keys _ = []"

fun dict_values :: "pyval \<Rightarrow> pyval list" where
  "dict_values (VDict kvs) = map snd kvs"
| "dict_values _ = []"

section \<open>The matcher\<close>

text \<open>
  An Isabelle name cannot begin with an underscore: each function of the source keeps its
  name without the leading one. \<open>validate_type\<close> is \<open>_validate_type\<close>.
\<close>

definition validate_type :: "pyclass \<Rightarrow> pyval \<Rightarrow> string option" where
  "validate_type expected_type value =
     (if \<not> isinstance value expected_type
      then Some (''must be an instance of '' @ str_class expected_type
                 @ '', but received '' @ str_class (type_of value))
      else None)"

text \<open>
  \<open>_validate_typing_callable\<close>. \<open>type(lambda a: a)\<close> is the class of Python-defined
  functions. The message reads \<open>expected_type._name\<close>, which only a generic alias has.
\<close>

fun validate_typing_callable :: "annotation \<Rightarrow> pyval \<Rightarrow> bool \<Rightarrow> pyexc + string option" where
  "validate_typing_callable (GenericAlias n args s) value strict =
     (if \<not> isinstance value FunctionC
      then Inr (Some (''must be an instance of '' @ str_name n
                      @ '', but received '' @ str_class (type_of value)))
      else Inr None)"
| "validate_typing_callable _ value strict =
     (if \<not> isinstance value FunctionC then Inl (AttributeError ''_name'') else Inr None)"

text \<open>
  \<open>_validate_types\<close>, \<open>_validate_sequential_types\<close>, \<open>_validate_typing_list\<close> and
  \<open>_validate_typing_dict\<close> call each other. The lookup in \<open>_validate_typing_mappings\<close>
  by \<open>expected_type._name\<close> is the chain of comparisons with \<open>List\<close>, \<open>Dict\<close> and
  \<open>Callable\<close>. The last three functions are only ever handed a generic alias; on any
  other object the attribute they read first is missing.
\<close>

fun validate_types :: "formatting \<Rightarrow> annotation \<Rightarrow> pyval \<Rightarrow> bool \<Rightarrow> pyexc + string option"
  and validate_sequential_types :: "formatting \<Rightarrow> annotation \<Rightarrow> pyval \<Rightarrow> bool \<Rightarrow> pyexc + string option"
  and validate_typing_list :: "formatting \<Rightarrow> annotation \<Rightarrow> pyval \<Rightarrow> bool \<Rightarrow> pyexc + string option"
  and validate_typing_dict :: "formatting \<Rightarrow> annotation \<Rightarrow> pyval \<Rightarrow> bool \<Rightarrow> pyexc + string option"
where
  "validate_types fmt (Class c) value strict = Inr (validate_type c value)"
| "validate_types fmt (GenericAlias n args s) value strict =
     validate_sequential_types fmt (GenericAlias n args s) value strict"
| "validate_types fmt (OtherAnnotation s) value strict = Inr None"
| "validate_sequential_types fmt (GenericAlias n args s) value strict =
     (if n = Some ''List'' then validate_typing_list fmt (GenericAlias n args s) value strict
      else if n = Some ''Dict'' then validate_typing_dict fmt (GenericAlias n args s) value strict
      else if n = Some ''Callable'' then validate_typing_callable (GenericAlias n args s) value strict
      else if startswith s ''typing.Union'' then
        (case any_is_None (map (\<lambda>t. validate_types fmt t value strict) args) of
           Inl e \<Rightarrow> Inl e
         | Inr is_valid \<Rightarrow>
             if \<not> is_valid
             then Inr (Some (''must be an instance of '' @ s
                             @ '', but received '' @ format_value fmt value))
             else Inr None)
      else if strict
      then Inl (RuntimeError (''Unknown type of '' @ s @ '' (_name = '' @ str_name n @ '')''))
      else Inr None)"
| "validate_sequential_types fmt _ value strict = Inl (AttributeError ''_name'')"
| "validate_typing_list fmt (GenericAlias n args s) value strict =
     (if \<not> isinstance value ListC
      then Inr (Some (''must be an instance of array, but received '' @ str_class (type_of value)))
      else
        (case args of
           [] \<Rightarrow> Inl IndexError
         | expected_item_type # _ \<Rightarrow>
             (case comprehension
                     (map (\<lambda>v. validate_types fmt expected_item_type v strict) (list_items value)) of
                Inl e \<Rightarrow> Inl e
              | Inr errors \<Rightarrow>
                  if length (nonempty_errors errors) > 0
                  then Inr (Some (''must be an instance of '' @ s
                                  @ '', but there are some errors: ''
                                  @ format_errors fmt (nonempty_errors errors)))
                  else Inr None)))"
| "validate_typing_list fmt _ value strict =
     (if \<not> isinstance value ListC
      then Inr (Some (''must be an instance of array, but received '' @ str_class (type_of value)))
      else Inl (AttributeError ''__args__''))"
| "validate_typing_dict fmt (GenericAlias n args s) value strict =
     (if \<not> isinstance value DictC
      then Inr (Some (''must be an instance of dict, but received '' @ str_class (type_of value)))
      else
        (case args of
           expected_key_type # expected_value_type # _ \<Rightarrow>
             (case comprehension
                     (map (\<lambda>k. validate_types fmt expected_key_type k strict) (dict_keys value)) of
                Inl e \<Rightarrow> Inl e
              | Inr key_errors \<Rightarrow>
                 (case comprehension
                         (map (\<lambda>v. validate_types fmt expected_value_type v strict) (dict_values value)) of
                    Inl e \<Rightarrow> Inl e
                  | Inr val_errors \<Rightarrow>
                      if length (nonempty_errors key_errors) > 0 \<and> length (nonempty_errors val_errors) > 0
                      then Inr (Some (''must be an instance of '' @ s
                                      @ '', but there are some errors in keys and values. ''
                                      @ ''key errors: '' @ format_errors fmt (nonempty_errors key_errors)
                                      @ '', value errors: '' @ format_errors fmt (nonempty_errors val_errors)))
                      else if length (nonempty_errors key_errors) > 0
                      then Inr (Some (''must be an instance of '' @ s
                                      @ '', but there are some errors in keys: ''
                                      @ format_errors fmt (nonempty_errors key_errors)))
                      else if length (nonempty_errors val_errors) > 0
                      then Inr (Some (''must be an instance of '' @ s
                                      @ '', but there are some errors in values: ''
                                      @ format_errors fmt (nonempty_errors val_errors)))
                      else Inr None))
         | _ \<Rightarrow> Inl IndexError))"
| "validate_typing_dict fmt _ value strict =
     (if \<not> isinstance value DictC
      then Inr (Some (''must be an instance of dict, but received '' @ str_class (type_of value)))
      else Inl (AttributeError ''__args__''))"

section \<open>The aggregator\<close>

text \<open>
  \<open>dataclasses.fields(target)\<close> and \<open>getattr(target, field_name)\<close> belong to the Python
  runtime: the record under validation is the list of its fields in declaration order,
  each with its name, its declared type and its current value.
\<close>

record field =
  field_name :: string
  field_type :: annotation
  field_value :: pyval

text \<open>
  The \<open>for field in fields\<close> loop of \<open>dataclass_type_validator\<close>, threading the \<open>errors\<close>
  dict. A dict keeps insertion order, and an assignment to a key already present
  replaces its value in place: \<open>AList.update\<close>.
\<close>

fun validate_fields ::
  "formatting \<Rightarrow> bool \<Rightarrow> field list \<Rightarrow> (string \<times> string) list \<Rightarrow> pyexc + (string \<times> string) list"
where
  "validate_fields fmt strict [] errors = Inr errors"
| "validate_fields fmt strict (f # rest) errors =
     (case validate_types fmt (field_type f) (field_value f) strict of
        Inl e \<Rightarrow> Inl e
      | Inr err \<Rightarrow>
          validate_fields fmt strict rest
            (case err of
               None \<Rightarrow> errors
             | Some m \<Rightarrow> AList.update (field_name f) m errors))"

definition dataclass_type_validator :: "formatting \<Rightarrow> field list \<Rightarrow> bool \<Rightarrow> pyexc + unit" where
  "dataclass_type_validator fmt target strict =
     (case validate_fields fmt strict target [] of
        Inl e \<Rightarrow> Inl e
      | Inr errors \<Rightarrow>
          if length errors > 0
          then Inl (TypeValidationError ''Dataclass Type Validation Error'' errors)
          else Inr ())"

text \<open>The verdict of the matcher on one field, and the fields it rejects with a message.\<close>

definition match_field :: "formatting \<Rightarrow> bool \<Rightarrow> field \<Rightarrow> pyexc + string option" where
  "match_field fmt strict f = validate_types fmt (field_type f) (field_value f) strict"

fun is_failure :: "pyexc + string option \<Rightarrow> bool" where
  "is_failure (Inr (Some m)) = True"
| "is_failure _ = False"

fun returns :: "pyexc + 'a \<Rightarrow> bool" where
  "returns (Inr x) = True"
| "returns (Inl e) = False"

fun failure_message :: "pyexc + string option \<Rightarrow> string" where
  "failure_message (Inr (Some m)) = m"
| "failure_message _ = []"

definition failing_fields :: "formatting \<Rightarrow> bool \<Rightarrow> field list \<Rightarrow> field list" where
  "failing_fields fmt strict target = filter (\<lambda>f. is_failure (match_field fmt strict f)) target"

section \<open>The decorator\<close>

text \<open>
  \<open>dataclass_validate\<close> replaces one method of the class by \<open>method_wrapper\<close>, which
  calls the original method and then \<open>dataclass_type_validator\<close>. Which method it wraps
  matters because of what the original \<open>__init__\<close> of a dataclass does: the \<open>__init__\<close>
  that \<open>dataclasses.dataclass\<close> generates assigns the fields and, when the class defines
  \<open>__post_init__\<close>, ends by calling \<open>self.__post_init__()\<close>.

  A class is modelled by its declared fields and its two method attributes. A method is
  either the original one or a wrapper around a method. Running a method yields the
  events in the order they happened, and either the exception raised or the instance.
  The \<open>cls is None\<close> branch of \<open>dataclass_validate\<close> only defers the call until the class
  is supplied, and is left out.
\<close>

datatype event = FieldsAssigned | PostInitBody | Validation

datatype post_init_method =
    UserPostInit "field list \<Rightarrow> pyexc + field list"
  | WrappedPostInit post_init_method bool

datatype init_method =
    GeneratedInit
  | WrappedInit init_method bool

record dataclass =
  dc_fields :: "(string \<times> annotation) list"
  dc_init :: init_method
  dc_post_init :: "post_init_method option"

type_synonym outcome = "event list \<times> (pyexc + field list)"

text \<open>\<open>method_wrapper\<close>, applied to the outcome of \<open>orig_method(self, *args, **kwargs)\<close>.\<close>

fun method_wrapper :: "formatting \<Rightarrow> bool \<Rightarrow> outcome \<Rightarrow> outcome" where
  "method_wrapper fmt strict (tr, Inl e) = (tr, Inl e)"
| "method_wrapper fmt strict (tr, Inr self) =
     (case dataclass_type_validator fmt self strict of
        Inl e \<Rightarrow> (tr @ [Validation], Inl e)
      | Inr _ \<Rightarrow> (tr @ [Validation], Inr self))"

fun call_post_init :: "formatting \<Rightarrow> post_init_method \<Rightarrow> field list \<Rightarrow> outcome" where
  "call_post_init fmt (UserPostInit body) self = ([PostInitBody], body self)"
| "call_post_init fmt (WrappedPostInit orig_method strict) self =
     method_wrapper fmt strict (call_post_init fmt orig_method self)"

fun assign_fields :: "(string \<times> annotation) list \<Rightarrow> pyval list \<Rightarrow> field list" where
  "assign_fields ((n, t) # fs) (v # vs) =
     \<lparr>field_name = n, field_type = t, field_value = v\<rparr> # assign_fields fs vs"
| "assign_fields _ _ = []"

fun call_init :: "formatting \<Rightarrow> dataclass \<Rightarrow> init_method \<Rightarrow> pyval list \<Rightarrow> outcome" where
  "call_init fmt cls GeneratedInit args =
     (if length args \<noteq> length (dc_fields cls) then ([], Inl TypeError)
      else
        (case dc_post_init cls of
           None \<Rightarrow> ([FieldsAssigned], Inr (assign_fields (dc_fields cls) args))
         | Some m \<Rightarrow>
             (case call_post_init fmt m (assign_fields (dc_fields cls) args) of
                (tr, r) \<Rightarrow> (FieldsAssigned # tr, r))))"
| "call_init fmt cls (WrappedInit orig_method strict) args =
     method_wrapper fmt strict (call_init fmt cls orig_method args)"

definition dataclass_validate :: "dataclass \<Rightarrow> bool \<Rightarrow> bool \<Rightarrow> dataclass" where
  "dataclass_validate cls strict before_post_init =
     (if before_post_init \<or> dc_post_init cls = None
      then cls\<lparr>dc_init := WrappedInit (dc_init cls) strict\<rparr>
      else cls\<lparr>dc_post_init := map_option (\<lambda>m. WrappedPostInit m strict) (dc_post_init cls)\<rparr>)"

text \<open>Constructing an instance calls the \<open>__init__\<close> attribute of the class.\<close>

definition construct :: "formatting \<Rightarrow> dataclass \<Rightarrow> pyval list \<Rightarrow> outcome" where
  "construct fmt cls args = call_init fmt cls (dc_init cls) args"

section \<open>Notions the statements use\<close>

text \<open>
  The list a comprehension over the matcher leaves after \<open>[x for x in errors if x]\<close>:
  \<open>errors\<close> in \<open>_validate_typing_list\<close>, \<open>key_errors\<close> and \<open>val_errors\<close> in
  \<open>_validate_typing_dict\<close>.
\<close>

definition collected_errors ::
  "formatting \<Rightarrow> annotation \<Rightarrow> pyval list \<Rightarrow> bool \<Rightarrow> pyexc + string list" where
  "collected_errors fmt t xs strict =
     (case comprehension (map (\<lambda>x. validate_types fmt t x strict) xs) of
        Inl e \<Rightarrow> Inl e
      | Inr errors \<Rightarrow> Inr (nonempty_errors errors))"

text \<open>
  Well-formed annotations: the \<open>typing\<close> module gives a \<open>List\<close> alias at least one
  argument and a \<open>Dict\<close> alias at least two, at every depth.
\<close>

fun wf_annotation :: "annotation \<Rightarrow> bool" where
  "wf_annotation (GenericAlias n args s) =
     ((if n = Some ''List'' then 1 \<le> length args else True)
      \<and> (if n = Some ''Dict'' then 2 \<le> length args else True)
      \<and> list_all wf_annotation args)"
| "wf_annotation _ = True"

text \<open>
  An example class for the decorator.
  \<^verbatim>\<open>
  @dataclass
  class Example:
      x: int
      def __post_init__(self):
          if isinstance(self.x, str):
              self.x = len(self.x)
  \<close>
\<close>

fun example_post_init_field :: "field \<Rightarrow> field" where
  "example_post_init_field f =
     (case field_value f of
        VStr s \<Rightarrow> f\<lparr>field_value := VInt (int (length s))\<rparr>
      | _ \<Rightarrow> f)"

definition example_post_init :: "field list \<Rightarrow> pyexc + field list" where
  "example_post_init self = Inr (map example_post_init_field self)"

definition example_class :: dataclass where
  "example_class =
     \<lparr>dc_fields = [(''x'', Class IntC)],
      dc_init = GeneratedInit,
      dc_post_init = Some (UserPostInit example_post_init)\<rparr>"

section \<open>Example annotations and a sample rendering\<close>

text \<open>
  The objects the \<open>typing\<close> module of Python 3.10 and later builds for \<open>List[E]\<close>,
  \<open>Dict[K, V]\<close>, \<open>Callable[[P, ...], R]\<close>, \<open>Tuple[...]\<close> and \<open>Union[...]\<close>: the \<open>_name\<close>,
  the \<open>__args__\<close> and the text \<open>str()\<close> gives. They serve to write examples; the
  theorems of the matcher speak about every generic alias.
\<close>

fun type_repr :: "annotation \<Rightarrow> string" where
  "type_repr (Class c) = class_name c"
| "type_repr (GenericAlias n args s) = s"
| "type_repr (OtherAnnotation s) = s"

fun join :: "string \<Rightarrow> string list \<Rightarrow> string" where
  "join sep [] = []"
| "join sep [x] = x"
| "join sep (x # y # ys) = x @ sep @ join sep (y # ys)"

definition typing_List :: "annotation \<Rightarrow> annotation" where
  "typing_List E = GenericAlias (Some ''List'') [E] (''typing.List['' @ type_repr E @ '']'')"

definition typing_Dict :: "annotation \<Rightarrow> annotation \<Rightarrow> annotation" where
  "typing_Dict K V =
     GenericAlias (Some ''Dict'') [K, V] (''typing.Dict['' @ type_repr K @ '', '' @ type_repr V @ '']'')"

definition typing_Callable :: "annotation list \<Rightarrow> annotation \<Rightarrow> annotation" where
  "typing_Callable params result =
     GenericAlias (Some ''Callable'') (params @ [result])
       (''typing.Callable[['' @ join '', '' (map type_repr params) @ ''], '' @ type_repr result @ '']'')"

definition typing_Tuple :: "annotation list \<Rightarrow> annotation" where
  "typing_Tuple args =
     GenericAlias (Some ''Tuple'') args (''typing.Tuple['' @ join '', '' (map type_repr args) @ '']'')"

text \<open>
  \<open>Union[a, ...]\<close> flattens the unions among its parameters and drops duplicates, the
  first occurrence staying. One parameter left is returned as it is. Two parameters of
  which one is \<open>NoneType\<close> make an alias named \<open>Optional\<close> that prints as
  \<open>typing.Optional[...]\<close>; any other union has no \<open>_name\<close> and prints as
  \<open>typing.Union[...]\<close>.
\<close>

fun union_members :: "annotation \<Rightarrow> annotation list" where
  "union_members (GenericAlias n args s) =
     (if (n = None \<and> startswith s ''typing.Union'')
         \<or> (n = Some ''Optional'' \<and> startswith s ''typing.Optional'')
      then args else [GenericAlias n args s])"
| "union_members a = [a]"

definition deduplicate :: "'a list \<Rightarrow> 'a list" where
  "deduplicate xs = rev (remdups (rev xs))"

definition typing_Union :: "annotation \<Rightarrow> annotation list \<Rightarrow> annotation" where
  "typing_Union a as =
     (case deduplicate (concat (map union_members (a # as))) of
        [p] \<Rightarrow> p
      | [p, q] \<Rightarrow>
          if p = Class NoneTypeC
          then GenericAlias (Some ''Optional'') [p, q] (''typing.Optional['' @ type_repr q @ '']'')
          else if q = Class NoneTypeC
          then GenericAlias (Some ''Optional'') [p, q] (''typing.Optional['' @ type_repr p @ '']'')
          else GenericAlias None [p, q]
                 (''typing.Union['' @ type_repr p @ '', '' @ type_repr q @ '']'')
      | ps \<Rightarrow> GenericAlias None ps (''typing.Union['' @ join '', '' (map type_repr ps) @ '']''))"

text \<open>
  One rendering, to evaluate examples with: \<open>str()\<close> of \<open>None\<close>, booleans, integers and
  strings as Python prints them, every other value abbreviated to its class name in angle
  brackets; and \<open>repr()\<close> of a list of strings of printable characters, with Python's
  choice of quotes.
\<close>

function str_nat :: "nat \<Rightarrow> string" where
  "str_nat n =
     (if n < 10 then [''0123456789'' ! n]
      else str_nat (n div 10) @ [''0123456789'' ! (n mod 10)])"
  by pat_completeness auto
termination
  by (relation "measure id") auto

fun str_value :: "pyval \<Rightarrow> string" where
  "str_value VNone = ''None''"
| "str_value (VBool b) = (if b then ''True'' else ''False'')"
| "str_value (VInt i) = (if i < 0 then ''-'' @ str_nat (nat (- i)) else str_nat (nat i))"
| "str_value (VStr s) = s"
| "str_value v = ''<'' @ class_name (type_of v) @ ''>''"

fun escape :: "bool \<Rightarrow> string \<Rightarrow> string" where
  "escape q [] = []"
| "escape q (c # cs) =
     (if c = CHR 0x5C then [c, c]
      else if q \<and> c = CHR 0x27 then [CHR 0x5C, c]
      else [c]) @ escape q cs"

definition repr_str :: "string \<Rightarrow> string" where
  "repr_str s =
     (if CHR 0x27 \<in> set s \<and> CHR 0x22 \<notin> set s
      then [CHR 0x22] @ escape False s @ [CHR 0x22]
      else [CHR 0x27] @ escape True s @ [CHR 0x27])"

definition repr_str_list :: "string list \<Rightarrow> string" where
  "repr_str_list es = ''['' @ join '', '' (map repr_str es) @ '']''"

definition sample_formatting :: formatting where
  "sample_formatting = \<lparr>format_value = str_value, format_errors = repr_str_list\<rparr>"

section \<open>Facts about the helpers\<close>

declare validate_types.simps [simp del] validate_sequential_types.simps [simp del]
  validate_typing_list.simps [simp del] validate_typing_dict.simps [simp del]
  str_nat.simps [simp del]

lemma comprehension_map_Inr: "comprehension (map Inr xs) = Inr xs"
  by (induction xs) auto

lemma comprehension_Inr: "(comprehension rs = Inr xs) = (rs = map Inr xs)"
proof
  show "comprehension rs = Inr xs \<Longrightarrow> rs = map Inr xs"
    by (induction rs arbitrary: xs) (auto split: sum.splits)
qed (simp add: comprehension_map_Inr)

lemma comprehension_Inl: "comprehension rs = Inl e \<Longrightarrow> Inl e \<in> set rs"
  by (induction rs) (auto split: sum.splits)

lemma comprehension_raises:
  assumes "comprehension (map g xs) = Inl e"
  shows "\<exists>x\<in>set xs. g x = Inl e"
  using comprehension_Inl [OF assms] by auto

lemma comprehension_all_None:
  "(\<forall>x\<in>set xs. g x = Inr None) \<Longrightarrow> comprehension (map g xs) = Inr (map (\<lambda>x. None) xs)"
  by (induction xs) auto

lemma nonempty_errors_const_None: "nonempty_errors (map (\<lambda>x. None) xs) = []"
  by (induction xs) (auto simp: nonempty_errors_def)

lemma nonempty_errors_Nil: "(nonempty_errors errors = []) = (\<forall>e\<in>set errors. \<not> truthy e)"
  by (auto simp: nonempty_errors_def filter_empty_conv)

lemma isinstance_ListC: "isinstance c ListC = (\<exists>xs. c = VList xs)"
  by (cases c) (auto simp: isinstance_def issubclass_def)

lemma isinstance_DictC: "isinstance c DictC = (\<exists>kvs. c = VDict kvs)"
  by (cases c) (auto simp: isinstance_def issubclass_def)

lemma isinstance_FunctionC: "isinstance c FunctionC = (\<exists>f. c = VFunction f)"
  by (cases c) (auto simp: isinstance_def issubclass_def)

subsection \<open>Every failure message is a non-empty string\<close>

lemma callable_nonempty: "validate_typing_callable t v strict \<noteq> Inr (Some [])"
  by (cases t) simp_all

lemma list_nonempty: "validate_typing_list fmt t v strict \<noteq> Inr (Some [])"
  by (cases t) (simp_all add: validate_typing_list.simps split: list.split sum.split)

lemma dict_nonempty: "validate_typing_dict fmt t v strict \<noteq> Inr (Some [])"
  by (cases t) (simp_all add: validate_typing_dict.simps split: list.split sum.split)

lemma sequential_nonempty: "validate_sequential_types fmt t v strict \<noteq> Inr (Some [])"
  by (cases t)
     (simp_all add: validate_sequential_types.simps callable_nonempty list_nonempty dict_nonempty
        split: sum.split)

lemma validate_types_nonempty: "validate_types fmt t v strict \<noteq> Inr (Some [])"
  by (cases t) (simp_all add: validate_types.simps validate_type_def sequential_nonempty)

lemma truthy_verdict:
  "validate_types fmt t v strict = Inr e \<Longrightarrow> truthy e = (e \<noteq> None)"
  using validate_types_nonempty [of fmt t v strict] by (cases e) auto

text \<open>
  So the filter \<open>[x for x in errors if x]\<close> drops exactly the passes: the list it leaves
  is empty if and only if every element passed.
\<close>

lemma collected_errors_Nil:
  assumes "comprehension (map (\<lambda>x. validate_types fmt t x strict) xs) = Inr errors"
  shows "(nonempty_errors errors = []) = (\<forall>x\<in>set xs. validate_types fmt t x strict = Inr None)"
proof -
  from assms have eq: "map (\<lambda>x. validate_types fmt t x strict) xs = map Inr errors"
    by (simp add: comprehension_Inr)
  then have len: "length xs = length errors"
    by (metis length_map)
  have nth: "\<And>i. i < length xs \<Longrightarrow> validate_types fmt t (xs ! i) strict = Inr (errors ! i)"
    using eq len by (metis nth_map)
  show ?thesis
  proof
    assume "nonempty_errors errors = []"
    then have nt: "\<forall>e\<in>set errors. \<not> truthy e" by (simp add: nonempty_errors_Nil)
    show "\<forall>x\<in>set xs. validate_types fmt t x strict = Inr None"
    proof
      fix x assume "x \<in> set xs"
      then obtain i where i: "i < length xs" "xs ! i = x" by (auto simp: in_set_conv_nth)
      then have v: "validate_types fmt t x strict = Inr (errors ! i)" using nth by auto
      have "\<not> truthy (errors ! i)" using nt i len by simp
      then have "errors ! i = None" using truthy_verdict [OF v] by simp
      then show "validate_types fmt t x strict = Inr None" using v by simp
    qed
  next
    assume all: "\<forall>x\<in>set xs. validate_types fmt t x strict = Inr None"
    have "comprehension (map (\<lambda>x. validate_types fmt t x strict) xs) = Inr (map (\<lambda>x. None) xs)"
      using all by (rule comprehension_all_None)
    with assms have "errors = map (\<lambda>x. None) xs" by simp
    then show "nonempty_errors errors = []" by (simp add: nonempty_errors_const_None)
  qed
qed

lemma collected_errors_eval:
  "collected_errors fmt (Class T) xs strict = Inr (nonempty_errors (map (validate_type T) xs))"
proof -
  have "map (\<lambda>x. validate_types fmt (Class T) x strict) xs = map Inr (map (validate_type T) xs)"
    by (simp add: validate_types.simps(1))
  then show ?thesis
    by (simp only: collected_errors_def comprehension_map_Inr sum.case)
qed

section \<open>Scalar descriptors\<close>

text \<open>
  Claim C9. For every class \<open>T\<close> and every value \<open>v\<close>, matching \<open>v\<close> against the scalar
  descriptor \<open>T\<close> succeeds if and only if \<open>v\<close> is an instance of \<open>T\<close>; on failure the
  message embeds \<open>T\<close> and the runtime type of \<open>v\<close>. The matcher hands a class
  descriptor to \<open>_validate_type\<close> whatever the mode.
\<close>

theorem scalar_match:
  "(validate_type T v = None \<longleftrightarrow> isinstance v T)
   \<and> (\<not> isinstance v T \<longrightarrow>
        validate_type T v = Some (''must be an instance of '' @ str_class T
                                  @ '', but received '' @ str_class (type_of v)))
   \<and> validate_types fmt (Class T) v strict = Inr (validate_type T v)"
  by (simp add: validate_type_def validate_types.simps)

theorem scalar_match_witness:
  "\<not> isinstance (VStr ''30'') IntC
   \<and> validate_type IntC (VStr ''30'')
       = Some (''must be an instance of '' @ str_class IntC @ '', but received '' @ str_class StrC)
   \<and> isinstance (VStr ''Alice'') StrC
   \<and> validate_type StrC (VStr ''Alice'') = None"
  using scalar_match [of IntC "VStr ''30''"] scalar_match [of StrC "VStr ''Alice''"]
  by (simp add: isinstance_def issubclass_def)

section \<open>Sequence descriptors\<close>

lemma list_pass_iff:
  "(validate_typing_list fmt (GenericAlias n (E # rest) s) c strict = Inr None)
   = (isinstance c ListC \<and> (\<forall>x\<in>set (list_items c). validate_types fmt E x strict = Inr None))"
proof (cases "isinstance c ListC")
  case False
  then show ?thesis by (simp add: validate_typing_list.simps)
next
  case True
  show ?thesis
  proof (cases "comprehension (map (\<lambda>v. validate_types fmt E v strict) (list_items c))")
    case (Inl e)
    then obtain x where "x \<in> set (list_items c)" "validate_types fmt E x strict = Inl e"
      using comprehension_raises by blast
    then have "\<not> (\<forall>x\<in>set (list_items c). validate_types fmt E x strict = Inr None)"
      by fastforce
    then show ?thesis using True Inl by (simp add: validate_typing_list.simps)
  next
    case (Inr errors)
    then show ?thesis using True collected_errors_Nil [OF Inr]
      by (simp add: validate_typing_list.simps)
  qed
qed

lemma list_single_failure:
  assumes "isinstance c ListC" and "list_items c = xs @ [b] @ ys"
    and "\<forall>x\<in>set (xs @ ys). validate_types fmt E x strict = Inr None"
    and "validate_types fmt E b strict = Inr (Some m)"
  shows "validate_typing_list fmt (GenericAlias n (E # rest) s) c strict
         = Inr (Some (''must be an instance of '' @ s @ '', but there are some errors: ''
                      @ format_errors fmt [m]))"
proof -
  let ?g = "\<lambda>v. validate_types fmt E v strict"
  have xs: "map ?g xs = map Inr (map (\<lambda>x. None) xs)" using assms(3) by simp
  have ys: "map ?g ys = map Inr (map (\<lambda>x. None) ys)" using assms(3) by simp
  have "map ?g (list_items c) = map Inr (map (\<lambda>x. None) xs @ [Some m] @ map (\<lambda>x. None) ys)"
    using xs ys assms(2,4) by simp
  then have c: "comprehension (map ?g (list_items c))
              = Inr (map (\<lambda>x. None) xs @ [Some m] @ map (\<lambda>x. None) ys)"
    by (simp only: comprehension_map_Inr)
  have "m \<noteq> []" using validate_types_nonempty [of fmt E b strict] assms(4) by auto
  then have ne: "nonempty_errors (map (\<lambda>x. None) xs @ [Some m] @ map (\<lambda>x. None) ys) = [m]"
    by (simp add: nonempty_errors_def)
  show ?thesis using assms(1) c ne by (simp add: validate_typing_list.simps)
qed

lemma list_result:
  assumes "isinstance c ListC" and "collected_errors fmt E (list_items c) strict = Inr es"
    and "es \<noteq> []"
  shows "validate_typing_list fmt (GenericAlias n (E # rest) s) c strict
         = Inr (Some (''must be an instance of '' @ s @ '', but there are some errors: ''
                      @ format_errors fmt es))"
  using assms
  by (auto simp: validate_typing_list.simps collected_errors_def split: sum.splits)

lemma list_dispatch:
  "validate_types fmt (GenericAlias (Some ''List'') args s) c strict
   = validate_typing_list fmt (GenericAlias (Some ''List'') args s) c strict"
  by (simp add: validate_types.simps validate_sequential_types.simps)

text \<open>
  Claim C5. For every element descriptor \<open>E\<close> and every value \<open>c\<close>, matching \<open>c\<close> against
  \<open>List[E]\<close> succeeds if and only if \<open>c\<close> has the shape of the container, a list, and
  every element of \<open>c\<close> matches \<open>E\<close>. One element that fails among elements that all pass
  fails the whole field, and whenever elements fail the message is made of the descriptor
  and the list of the element errors.
\<close>

theorem sequence_match:
  "(validate_types fmt (GenericAlias (Some ''List'') (E # rest) s) c strict = Inr None
      \<longleftrightarrow> isinstance c ListC \<and> (\<forall>x\<in>set (list_items c). validate_types fmt E x strict = Inr None))
   \<and> (isinstance c ListC \<and> list_items c = xs @ [b] @ ys
        \<and> (\<forall>x\<in>set (xs @ ys). validate_types fmt E x strict = Inr None)
        \<and> validate_types fmt E b strict = Inr (Some m)
      \<longrightarrow> validate_types fmt (GenericAlias (Some ''List'') (E # rest) s) c strict
          = Inr (Some (''must be an instance of '' @ s @ '', but there are some errors: ''
                       @ format_errors fmt [m])))
   \<and> (isinstance c ListC \<and> collected_errors fmt E (list_items c) strict = Inr es \<and> es \<noteq> []
      \<longrightarrow> validate_types fmt (GenericAlias (Some ''List'') (E # rest) s) c strict
          = Inr (Some (''must be an instance of '' @ s @ '', but there are some errors: ''
                       @ format_errors fmt es)))"
proof (intro conjI)
  show "validate_types fmt (GenericAlias (Some ''List'') (E # rest) s) c strict = Inr None
      \<longleftrightarrow> isinstance c ListC \<and> (\<forall>x\<in>set (list_items c). validate_types fmt E x strict = Inr None)"
    unfolding list_dispatch by (rule list_pass_iff)
  show "isinstance c ListC \<and> list_items c = xs @ [b] @ ys
        \<and> (\<forall>x\<in>set (xs @ ys). validate_types fmt E x strict = Inr None)
        \<and> validate_types fmt E b strict = Inr (Some m)
      \<longrightarrow> validate_types fmt (GenericAlias (Some ''List'') (E # rest) s) c strict
          = Inr (Some (''must be an instance of '' @ s @ '', but there are some errors: ''
                       @ format_errors fmt [m]))"
    unfolding list_dispatch using list_single_failure by blast
  show "isinstance c ListC \<and> collected_errors fmt E (list_items c) strict = Inr es \<and> es \<noteq> []
      \<longrightarrow> validate_types fmt (GenericAlias (Some ''List'') (E # rest) s) c strict
          = Inr (Some (''must be an instance of '' @ s @ '', but there are some errors: ''
                       @ format_errors fmt es))"
    unfolding list_dispatch using list_result by blast
qed

theorem sequence_match_witness:
  "isinstance (VList [VInt 1, VStr ''2'', VInt 3]) ListC
   \<and> list_items (VList [VInt 1, VStr ''2'', VInt 3]) = [VInt 1] @ [VStr ''2''] @ [VInt 3]
   \<and> validate_types sample_formatting (Class IntC) (VInt 1) False = Inr None
   \<and> validate_types sample_formatting (Class IntC) (VInt 3) False = Inr None
   \<and> validate_types sample_formatting (Class IntC) (VStr ''2'') False
       = Inr (Some (''must be an instance of '' @ str_class IntC @ '', but received '' @ str_class StrC))
   \<and> collected_errors sample_formatting (Class IntC)
        (list_items (VList [VInt 1, VStr ''2'', VInt 3])) False
       = Inr [''must be an instance of '' @ str_class IntC @ '', but received '' @ str_class StrC]
   \<and> validate_types sample_formatting (typing_List (Class IntC)) (VList [VInt 1, VStr ''2'', VInt 3]) False
       = Inr (Some (''must be an instance of typing.List[int], but there are some errors: ''
                    @ format_errors sample_formatting
                        [''must be an instance of '' @ str_class IntC @ '', but received '' @ str_class StrC]))
   \<and> validate_types sample_formatting (typing_List (Class IntC)) (VList [VInt 1, VInt 2, VInt 3]) False
       = Inr None"
  using sequence_match [of sample_formatting "Class IntC" "[]" "''typing.List[int]''"
      "VList [VInt 1, VStr ''2'', VInt 3]" False "[VInt 1]" "VStr ''2''" "[VInt 3]"
      "''must be an instance of '' @ str_class IntC @ '', but received '' @ str_class StrC"
      "[''must be an instance of '' @ str_class IntC @ '', but received '' @ str_class StrC]"]
    sequence_match [of sample_formatting "Class IntC" "[]" "''typing.List[int]''"
      "VList [VInt 1, VInt 2, VInt 3]" False]
  by (simp add: typing_List_def validate_types.simps(1) validate_type_def isinstance_def
        issubclass_def collected_errors_eval nonempty_errors_def)

section \<open>Mapping descriptors\<close>

lemma dict_pass_iff:
  "(validate_typing_dict fmt (GenericAlias n (K # V # rest) s) m strict = Inr None)
   = (isinstance m DictC
      \<and> (\<forall>k\<in>set (dict_keys m). validate_types fmt K k strict = Inr None)
      \<and> (\<forall>v\<in>set (dict_values m). validate_types fmt V v strict = Inr None))"
proof (cases "isinstance m DictC")
  case False
  then show ?thesis by (simp add: validate_typing_dict.simps)
next
  case True
  show ?thesis
  proof (cases "comprehension (map (\<lambda>k. validate_types fmt K k strict) (dict_keys m))")
    case (Inl e)
    then obtain x where "x \<in> set (dict_keys m)" "validate_types fmt K x strict = Inl e"
      using comprehension_raises by blast
    then have "\<not> (\<forall>k\<in>set (dict_keys m). validate_types fmt K k strict = Inr None)"
      by fastforce
    then show ?thesis using True Inl by (simp add: validate_typing_dict.simps)
  next
    case kerr: (Inr key_errors)
    show ?thesis
    proof (cases "comprehension (map (\<lambda>v. validate_types fmt V v strict) (dict_values m))")
      case (Inl e)
      then obtain x where "x \<in> set (dict_values m)" "validate_types fmt V x strict = Inl e"
        using comprehension_raises by blast
      then have "\<not> (\<forall>v\<in>set (dict_values m). validate_types fmt V v strict = Inr None)"
        by fastforce
      then show ?thesis using True kerr Inl by (simp add: validate_typing_dict.simps)
    next
      case verr: (Inr val_errors)
      show ?thesis
        using True kerr verr collected_errors_Nil [OF kerr] collected_errors_Nil [OF verr]
        by (simp add: validate_typing_dict.simps)
    qed
  qed
qed

lemma dict_dispatch:
  "validate_types fmt (GenericAlias (Some ''Dict'') args s) c strict
   = validate_typing_dict fmt (GenericAlias (Some ''Dict'') args s) c strict"
  by (simp add: validate_types.simps validate_sequential_types.simps)

text \<open>
  Claim C6. For every key descriptor \<open>K\<close>, value descriptor \<open>V\<close> and value \<open>m\<close>, matching
  \<open>m\<close> against \<open>Dict[K, V]\<close> succeeds if and only if \<open>m\<close> is a dict, every key of \<open>m\<close>
  matches \<open>K\<close> and every value of \<open>m\<close> matches \<open>V\<close>. Keys and values are two separate
  pools: pairing the same keys with the same values in another way never changes whether
  the dict passes.
\<close>

theorem mapping_match:
  "(validate_types fmt (GenericAlias (Some ''Dict'') (K # V # rest) s) m strict = Inr None
      \<longleftrightarrow> isinstance m DictC
          \<and> (\<forall>k\<in>set (dict_keys m). validate_types fmt K k strict = Inr None)
          \<and> (\<forall>v\<in>set (dict_values m). validate_types fmt V v strict = Inr None))
   \<and> (isinstance m DictC \<and> isinstance m' DictC
        \<and> mset (dict_keys m') = mset (dict_keys m) \<and> mset (dict_values m') = mset (dict_values m)
      \<longrightarrow> (validate_types fmt (GenericAlias (Some ''Dict'') (K # V # rest) s) m' strict = Inr None
           \<longleftrightarrow> validate_types fmt (GenericAlias (Some ''Dict'') (K # V # rest) s) m strict = Inr None))"
proof -
  have "set (dict_keys m') = set (dict_keys m)" if "mset (dict_keys m') = mset (dict_keys m)"
    using that by (rule mset_eq_setD)
  moreover have "set (dict_values m') = set (dict_values m)"
    if "mset (dict_values m') = mset (dict_values m)"
    using that by (rule mset_eq_setD)
  ultimately show ?thesis
    unfolding dict_dispatch dict_pass_iff by auto
qed

theorem mapping_match_witness:
  "isinstance (VDict [(VStr ''a'', VInt 1), (VStr ''b'', VInt 2)]) DictC
   \<and> isinstance (VDict [(VStr ''a'', VInt 2), (VStr ''b'', VInt 1)]) DictC
   \<and> dict_keys (VDict [(VStr ''a'', VInt 1), (VStr ''b'', VInt 2)]) = [VStr ''a'', VStr ''b'']
   \<and> validate_types sample_formatting (Class StrC) (VStr ''a'') False = Inr None
   \<and> validate_types sample_formatting (Class StrC) (VStr ''b'') False = Inr None
   \<and> dict_values (VDict [(VStr ''a'', VInt 1), (VStr ''b'', VInt 2)]) = [VInt 1, VInt 2]
   \<and> validate_types sample_formatting (Class IntC) (VInt 1) False = Inr None
   \<and> validate_types sample_formatting (Class IntC) (VInt 2) False = Inr None
   \<and> mset (dict_keys (VDict [(VStr ''a'', VInt 2), (VStr ''b'', VInt 1)]))
       = mset (dict_keys (VDict [(VStr ''a'', VInt 1), (VStr ''b'', VInt 2)]))
   \<and> mset (dict_values (VDict [(VStr ''a'', VInt 2), (VStr ''b'', VInt 1)]))
       = mset (dict_values (VDict [(VStr ''a'', VInt 1), (VStr ''b'', VInt 2)]))
   \<and> validate_types sample_formatting (typing_Dict (Class StrC) (Class IntC))
        (VDict [(VStr ''a'', VInt 1), (VStr ''b'', VInt 2)]) False = Inr None
   \<and> validate_types sample_formatting (typing_Dict (Class StrC) (Class IntC))
        (VDict [(VStr ''a'', VInt 2), (VStr ''b'', VInt 1)]) False = Inr None
   \<and> validate_types sample_formatting (typing_Dict (Class StrC) (Class IntC))
        (VDict [(VStr ''a'', VInt 1), (VInt 7, VInt 2)]) False \<noteq> Inr None"
  using mapping_match [of sample_formatting "Class StrC" "Class IntC" "[]" "''typing.Dict[str, int]''"
      "VDict [(VStr ''a'', VInt 1), (VStr ''b'', VInt 2)]" False
      "VDict [(VStr ''a'', VInt 2), (VStr ''b'', VInt 1)]"]
    mapping_match [of sample_formatting "Class StrC" "Class IntC" "[]" "''typing.Dict[str, int]''"
      "VDict [(VStr ''a'', VInt 1), (VInt 7, VInt 2)]" False]
  by (simp add: typing_Dict_def validate_types.simps(1) validate_type_def isinstance_def issubclass_def)

lemma dict_result:
  assumes "isinstance m DictC"
    and "collected_errors fmt K (dict_keys m) strict = Inr ke"
    and "collected_errors fmt V (dict_values m) strict = Inr ve"
  shows "validate_typing_dict fmt (GenericAlias n (K # V # rest) s) m strict
         = (if ke \<noteq> [] \<and> ve \<noteq> []
            then Inr (Some (''must be an instance of '' @ s
                            @ '', but there are some errors in keys and values. ''
                            @ ''key errors: '' @ format_errors fmt ke
                            @ '', value errors: '' @ format_errors fmt ve))
            else if ke \<noteq> []
            then Inr (Some (''must be an instance of '' @ s
                            @ '', but there are some errors in keys: '' @ format_errors fmt ke))
            else if ve \<noteq> []
            then Inr (Some (''must be an instance of '' @ s
                            @ '', but there are some errors in values: '' @ format_errors fmt ve))
            else Inr None)"
  using assms
  by (auto simp: validate_typing_dict.simps collected_errors_def split: sum.splits)

text \<open>
  Claim C7. A failing match against \<open>Dict[K, V]\<close> words its message in one of three ways,
  by which of the two pools of errors are non-empty: key errors only, value errors only,
  or both. For one descriptor the three wordings are pairwise different strings, whatever
  the errors listed; in particular a key failure with no value failure never reads like a
  failure of both.
\<close>

theorem mapping_messages:
  "(isinstance m DictC
      \<and> collected_errors fmt K (dict_keys m) strict = Inr ke
      \<and> collected_errors fmt V (dict_values m) strict = Inr ve
    \<longrightarrow> validate_types fmt (GenericAlias (Some ''Dict'') (K # V # rest) s) m strict
        = (if ke \<noteq> [] \<and> ve \<noteq> []
           then Inr (Some (''must be an instance of '' @ s
                           @ '', but there are some errors in keys and values. ''
                           @ ''key errors: '' @ format_errors fmt ke
                           @ '', value errors: '' @ format_errors fmt ve))
           else if ke \<noteq> []
           then Inr (Some (''must be an instance of '' @ s
                           @ '', but there are some errors in keys: '' @ format_errors fmt ke))
           else if ve \<noteq> []
           then Inr (Some (''must be an instance of '' @ s
                           @ '', but there are some errors in values: '' @ format_errors fmt ve))
           else Inr None))
   \<and> ''must be an instance of '' @ s @ '', but there are some errors in keys: '' @ format_errors fmt ke
       \<noteq> ''must be an instance of '' @ s @ '', but there are some errors in keys and values. ''
           @ ''key errors: '' @ format_errors fmt ke' @ '', value errors: '' @ format_errors fmt ve'
   \<and> ''must be an instance of '' @ s @ '', but there are some errors in keys: '' @ format_errors fmt ke
       \<noteq> ''must be an instance of '' @ s @ '', but there are some errors in values: '' @ format_errors fmt ve
   \<and> ''must be an instance of '' @ s @ '', but there are some errors in values: '' @ format_errors fmt ve
       \<noteq> ''must be an instance of '' @ s @ '', but there are some errors in keys and values. ''
           @ ''key errors: '' @ format_errors fmt ke' @ '', value errors: '' @ format_errors fmt ve'"
proof (intro conjI impI)
  assume "isinstance m DictC
      \<and> collected_errors fmt K (dict_keys m) strict = Inr ke
      \<and> collected_errors fmt V (dict_values m) strict = Inr ve"
  then show "validate_types fmt (GenericAlias (Some ''Dict'') (K # V # rest) s) m strict
        = (if ke \<noteq> [] \<and> ve \<noteq> []
           then Inr (Some (''must be an instance of '' @ s
                           @ '', but there are some errors in keys and values. ''
                           @ ''key errors: '' @ format_errors fmt ke
                           @ '', value errors: '' @ format_errors fmt ve))
           else if ke \<noteq> []
           then Inr (Some (''must be an instance of '' @ s
                           @ '', but there are some errors in keys: '' @ format_errors fmt ke))
           else if ve \<noteq> []
           then Inr (Some (''must be an instance of '' @ s
                           @ '', but there are some errors in values: '' @ format_errors fmt ve))
           else Inr None)"
    unfolding dict_dispatch using dict_result by blast
qed simp_all

theorem mapping_messages_witness:
  "isinstance (VDict [(VInt 7, VInt 1), (VStr ''b'', VInt 2)]) DictC
   \<and> collected_errors sample_formatting (Class StrC)
        (dict_keys (VDict [(VInt 7, VInt 1), (VStr ''b'', VInt 2)])) False
       = Inr [''must be an instance of '' @ str_class StrC @ '', but received '' @ str_class IntC]
   \<and> collected_errors sample_formatting (Class IntC)
        (dict_values (VDict [(VInt 7, VInt 1), (VStr ''b'', VInt 2)])) False = Inr []
   \<and> validate_types sample_formatting (typing_Dict (Class StrC) (Class IntC))
        (VDict [(VInt 7, VInt 1), (VStr ''b'', VInt 2)]) False
       = Inr (Some (''must be an instance of typing.Dict[str, int], but there are some errors in keys: ''
                    @ format_errors sample_formatting
                        [''must be an instance of '' @ str_class StrC @ '', but received '' @ str_class IntC]))"
  using mapping_messages [of "VDict [(VInt 7, VInt 1), (VStr ''b'', VInt 2)]" sample_formatting
      "Class StrC" False
      "[''must be an instance of '' @ str_class StrC @ '', but received '' @ str_class IntC]"
      "Class IntC" "[]" "[]" "''typing.Dict[str, int]''"]
  by (simp add: typing_Dict_def collected_errors_eval nonempty_errors_def validate_type_def
        isinstance_def issubclass_def)

section \<open>The container check of a sequence descriptor\<close>

lemma infix_position:
  assumes "s @ L @ X = R"
  shows "take (length L) (drop (length s) R) = L" and "length s + length L \<le> length R"
proof -
  have R: "R = s @ L @ X" using assms by simp
  show "take (length L) (drop (length s) R) = L" unfolding R by simp
  show "length s + length L \<le> length R" unfolding R by simp
qed

lemma some_errors_not_array:
  "s @ '', but there are some errors: '' @ X \<noteq> ''array, but received '' @ str_class ListC"
proof
  let ?L = "'', but there are some errors: ''"
  let ?R = "''array, but received '' @ str_class ListC"
  assume eq: "s @ ?L @ X = ?R"
  have len: "length s \<le> 5"
    using infix_position(2) [OF eq] by (simp add: str_class_def)
  have L: "take (length ?L) (drop (length s) ?R) = ?L"
    by (rule infix_position(1) [OF eq])
  consider "length s = 0" | "length s = 1" | "length s = 2" | "length s = 3"
    | "length s = 4" | "length s = 5"
    using len by linarith
  then show False
  proof cases
    case 1 with L show False by (simp add: str_class_def)
  next
    case 2 with L show False by (simp add: str_class_def)
  next
    case 3 with L show False by (simp add: str_class_def)
  next
    case 4 with L show False by (simp add: str_class_def)
  next
    case 5 with L show False by (simp add: str_class_def)
  next
    case 6 with L show False by (simp add: str_class_def)
  qed
qed

lemma list_not_container_message:
  assumes "isinstance c ListC"
  shows "validate_typing_list fmt (GenericAlias n (E # rest) s) c strict
         \<noteq> Inr (Some (''must be an instance of array, but received '' @ str_class (type_of c)))"
proof -
  from assms obtain xs where c: "c = VList xs" by (auto simp: isinstance_ListC)
  show ?thesis
    using assms some_errors_not_array
    by (simp add: validate_typing_list.simps c split: sum.split)
qed

text \<open>
  Claim C10. For every element descriptor \<open>E\<close>, the container check of \<open>List[E]\<close> accepts
  a value if and only if it is an instance of the built-in \<open>list\<close>. Any other value, a
  tuple, a string or a range among them, gets the container mismatch message whatever it
  holds, and no list ever gets that message; the empty list passes.
\<close>

theorem list_container_check:
  "(isinstance c ListC \<longleftrightarrow> (\<exists>xs. c = VList xs))
   \<and> (validate_types fmt (GenericAlias (Some ''List'') (E # rest) s) c strict
        = Inr (Some (''must be an instance of array, but received '' @ str_class (type_of c)))
      \<longleftrightarrow> \<not> isinstance c ListC)
   \<and> validate_types fmt (GenericAlias (Some ''List'') (E # rest) s) (VList []) strict = Inr None"
proof (intro conjI)
  show "isinstance c ListC \<longleftrightarrow> (\<exists>xs. c = VList xs)" by (rule isinstance_ListC)
  show "validate_types fmt (GenericAlias (Some ''List'') (E # rest) s) c strict
        = Inr (Some (''must be an instance of array, but received '' @ str_class (type_of c)))
      \<longleftrightarrow> \<not> isinstance c ListC"
    unfolding list_dispatch
    using list_not_container_message [of c fmt "Some ''List''" E rest s strict]
    by (auto simp: validate_typing_list.simps)
  show "validate_types fmt (GenericAlias (Some ''List'') (E # rest) s) (VList []) strict = Inr None"
    unfolding list_dispatch
    by (simp add: validate_typing_list.simps isinstance_def issubclass_def nonempty_errors_def)
qed

theorem list_container_check_witness:
  "\<not> isinstance (VTuple [VInt 1, VInt 2]) ListC
   \<and> \<not> isinstance (VStr ''ab'') ListC
   \<and> \<not> isinstance (VRange 0 3 1) ListC
   \<and> \<not> isinstance (VInstance (UserClass ''collections.UserList'' False None)) ListC
   \<and> validate_types sample_formatting (typing_List (Class IntC)) (VTuple [VInt 1, VInt 2]) False
       = Inr (Some (''must be an instance of array, but received '' @ str_class TupleC))
   \<and> validate_types sample_formatting (typing_List (Class IntC)) (VStr ''ab'') False
       = Inr (Some (''must be an instance of array, but received '' @ str_class StrC))
   \<and> validate_types sample_formatting (typing_List (Class IntC)) (VRange 0 3 1) False
       = Inr (Some (''must be an instance of array, but received '' @ str_class RangeC))
   \<and> isinstance (VList []) ListC
   \<and> validate_types sample_formatting (typing_List (Class IntC)) (VList []) False = Inr None"
  using list_container_check [of "VTuple [VInt 1, VInt 2]" sample_formatting "Class IntC" "[]"
      "''typing.List[int]''" False]
    list_container_check [of "VStr ''ab''" sample_formatting "Class IntC" "[]"
      "''typing.List[int]''" False]
    list_container_check [of "VRange 0 3 1" sample_formatting "Class IntC" "[]"
      "''typing.List[int]''" False]
    list_container_check [of "VInstance (UserClass ''collections.UserList'' False None)"]
  by (simp add: typing_List_def isinstance_def issubclass_def)

section \<open>Callable descriptors\<close>

lemma callable_dispatch:
  "validate_types fmt (GenericAlias (Some ''Callable'') args s) v strict
   = validate_typing_callable (GenericAlias (Some ''Callable'') args s) v strict"
  by (simp add: validate_types.simps validate_sequential_types.simps)

text \<open>
  Claim C4, as amended. For every value \<open>v\<close>, matching \<open>v\<close> against a \<open>Callable\<close>
  descriptor succeeds if and only if \<open>v\<close> is an instance of the class of Python-defined
  functions, \<open>type(lambda a: a)\<close>; on failure the message names \<open>Callable\<close> and the runtime
  type of \<open>v\<close>.
\<close>

theorem callable_accepts_functions_only:
  "(validate_types fmt (GenericAlias (Some ''Callable'') args s) v strict = Inr None
      \<longleftrightarrow> isinstance v FunctionC)
   \<and> (isinstance v FunctionC \<longleftrightarrow> (\<exists>f. v = VFunction f))
   \<and> (\<not> isinstance v FunctionC \<longrightarrow>
        validate_types fmt (GenericAlias (Some ''Callable'') args s) v strict
        = Inr (Some (''must be an instance of Callable, but received '' @ str_class (type_of v))))"
  unfolding callable_dispatch by (simp add: isinstance_FunctionC)

theorem callable_accepts_functions_only_witness:
  "isinstance (VFunction ''<lambda>'') FunctionC
   \<and> validate_types sample_formatting (typing_Callable [Class IntC] (Class IntC))
        (VFunction ''<lambda>'') False = Inr None
   \<and> \<not> isinstance (VInt 3) FunctionC
   \<and> validate_types sample_formatting (typing_Callable [Class IntC] (Class IntC)) (VInt 3) False
       = Inr (Some (''must be an instance of Callable, but received '' @ str_class IntC))"
  using callable_accepts_functions_only [of sample_formatting "[Class IntC, Class IntC]"
      "''typing.Callable[[int], int]''" "VFunction ''<lambda>''" False]
    callable_accepts_functions_only [of sample_formatting "[Class IntC, Class IntC]"
      "''typing.Callable[[int], int]''" "VInt 3" False]
  by (simp add: typing_Callable_def isinstance_def issubclass_def)

text \<open>
  The claim as first stated, success for every invocable value, fails: the built-in
  function \<open>len\<close> can be called and is rejected.
\<close>

theorem builtin_function_rejected_counterexample:
  "callable (VBuiltinFunction ''len'')
   \<and> validate_types sample_formatting (typing_Callable [Class ObjectC] (Class IntC))
        (VBuiltinFunction ''len'') False
       = Inr (Some (''must be an instance of Callable, but received '' @ str_class BuiltinFunctionC))"
  by (simp add: typing_Callable_def validate_types.simps validate_sequential_types.simps
        isinstance_def issubclass_def)

section \<open>Outside strict mode the matcher returns\<close>

text \<open>
  The classes of the model are those on which \<open>isinstance\<close> returns; on them, with
  well-formed annotations, the matcher raises nothing outside strict mode. A class on
  which \<open>isinstance\<close> itself raises, such as \<open>typing.Any\<close> from Python 3.11 on, is not in
  the model.
\<close>

lemma any_is_None_returns:
  assumes "\<forall>t\<in>set ts. returns (g t)"
  shows "any_is_None (map g ts) = Inr (\<exists>t\<in>set ts. g t = Inr None)"
  using assms
proof (induction ts)
  case Nil
  then show ?case by simp
next
  case (Cons t ts)
  then obtain r where r: "g t = Inr r" by (cases "g t") auto
  show ?case
  proof (cases r)
    case None
    then show ?thesis using r by simp
  next
    case (Some m)
    then show ?thesis using r Cons by simp
  qed
qed

lemma comprehension_returns:
  "\<forall>x\<in>set xs. returns (g x) \<Longrightarrow> returns (comprehension (map g xs))"
proof (induction xs)
  case Nil
  then show ?case by simp
next
  case (Cons x xs)
  then obtain r rs where "g x = Inr r" "comprehension (map g xs) = Inr rs"
    by (cases "g x"; cases "comprehension (map g xs)") auto
  then show ?case by simp
qed

lemma returns_case:
  "returns r \<Longrightarrow> (\<And>x. returns (f x)) \<Longrightarrow> returns (case r of Inl e \<Rightarrow> Inl e | Inr x \<Rightarrow> f x)"
  by (cases r) auto

lemma nonstrict_returns:
  "wf_annotation t \<Longrightarrow> returns (validate_types fmt t v False)"
proof (induction t arbitrary: v)
  case (Class c)
  show ?case by (simp add: validate_types.simps)
next
  case (OtherAnnotation a)
  show ?case by (simp add: validate_types.simps)
next
  case (GenericAlias n args s)
  have IH: "\<And>a x. a \<in> set args \<Longrightarrow> returns (validate_types fmt a x False)"
    using GenericAlias by (simp add: list_all_iff)
  have seq: "validate_types fmt (GenericAlias n args s) v False
             = validate_sequential_types fmt (GenericAlias n args s) v False"
    by (simp add: validate_types.simps)
  consider (list) "n = Some ''List''" | (dict) "n = Some ''Dict''" | (callable) "n = Some ''Callable''"
    | (other) "n \<noteq> Some ''List''" "n \<noteq> Some ''Dict''" "n \<noteq> Some ''Callable''"
    by blast
  then show ?case
  proof cases
    case list
    then obtain e rest where args: "args = e # rest"
      using GenericAlias.prems by (cases args) auto
    have "returns (comprehension (map (\<lambda>x. validate_types fmt e x False) (list_items v)))"
      by (rule comprehension_returns) (simp add: IH args)
    then show ?thesis
      unfolding seq
      by (auto simp: validate_sequential_types.simps validate_typing_list.simps list args
            intro!: returns_case)
  next
    case dict
    then obtain k e rest where args: "args = k # e # rest"
      using GenericAlias.prems by (cases args; cases "tl args") auto
    have "returns (comprehension (map (\<lambda>x. validate_types fmt k x False) (dict_keys v)))"
      by (rule comprehension_returns) (simp add: IH args)
    moreover have "returns (comprehension (map (\<lambda>x. validate_types fmt e x False) (dict_values v)))"
      by (rule comprehension_returns) (simp add: IH args)
    ultimately show ?thesis
      unfolding seq
      by (auto simp: validate_sequential_types.simps validate_typing_dict.simps dict args
            intro!: returns_case)
  next
    case callable
    then show ?thesis
      unfolding seq by (simp add: validate_sequential_types.simps)
  next
    case other
    have "any_is_None (map (\<lambda>t. validate_types fmt t v False) args)
          = Inr (\<exists>t\<in>set args. validate_types fmt t v False = Inr None)"
      by (rule any_is_None_returns) (simp add: IH)
    then show ?thesis
      unfolding seq using other by (simp add: validate_sequential_types.simps)
  qed
qed

section \<open>Union descriptors\<close>

lemma union_dispatch:
  assumes "n \<noteq> Some ''List''" "n \<noteq> Some ''Dict''" "n \<noteq> Some ''Callable''"
    and "startswith s ''typing.Union''"
  shows "validate_types fmt (GenericAlias n alts s) v strict
         = (case any_is_None (map (\<lambda>t. validate_types fmt t v strict) alts) of
              Inl e \<Rightarrow> Inl e
            | Inr is_valid \<Rightarrow>
                if \<not> is_valid
                then Inr (Some (''must be an instance of '' @ s
                                @ '', but received '' @ format_value fmt v))
                else Inr None)"
  using assms by (simp add: validate_types.simps validate_sequential_types.simps)

lemma union_result:
  assumes "n \<noteq> Some ''List''" "n \<noteq> Some ''Dict''" "n \<noteq> Some ''Callable''"
    and "startswith s ''typing.Union''"
    and "\<forall>t\<in>set alts. returns (validate_types fmt t v strict)"
  shows "validate_types fmt (GenericAlias n alts s) v strict
         = (if \<exists>t\<in>set alts. validate_types fmt t v strict = Inr None then Inr None
            else Inr (Some (''must be an instance of '' @ s
                            @ '', but received '' @ format_value fmt v)))"
  unfolding union_dispatch [OF assms(1-4)]
    any_is_None_returns [of alts "\<lambda>t. validate_types fmt t v strict", OF assms(5)]
  by simp

text \<open>
  Claim C8, as amended. Take a generic alias that the matcher takes for a union: its
  \<open>_name\<close> is none of \<open>List\<close>, \<open>Dict\<close>, \<open>Callable\<close> and its text starts with
  \<open>typing.Union\<close>. Take a value \<open>v\<close> such that the match of \<open>v\<close> against each alternative
  returns a verdict. Then the match against the union succeeds if and only if \<open>v\<close>
  matches at least one alternative; a permutation of the alternatives that the matcher
  again takes for a union succeeds exactly when the original does; and when no alternative
  matches the message embeds the text of the union descriptor and the value.
\<close>

theorem union_match:
  assumes "n \<noteq> Some ''List''" "n \<noteq> Some ''Dict''" "n \<noteq> Some ''Callable''"
    and "startswith s ''typing.Union''"
    and "\<forall>t\<in>set alts. returns (validate_types fmt t v strict)"
  shows "(validate_types fmt (GenericAlias n alts s) v strict = Inr None
            \<longleftrightarrow> (\<exists>t\<in>set alts. validate_types fmt t v strict = Inr None))
         \<and> (mset alts' = mset alts \<and> startswith s' ''typing.Union''
              \<longrightarrow> (validate_types fmt (GenericAlias n alts' s') v strict = Inr None
                   \<longleftrightarrow> validate_types fmt (GenericAlias n alts s) v strict = Inr None))
         \<and> ((\<forall>t\<in>set alts. validate_types fmt t v strict \<noteq> Inr None)
              \<longrightarrow> validate_types fmt (GenericAlias n alts s) v strict
                  = Inr (Some (''must be an instance of '' @ s
                               @ '', but received '' @ format_value fmt v)))"
proof (intro conjI impI)
  show iff: "validate_types fmt (GenericAlias n alts s) v strict = Inr None
        \<longleftrightarrow> (\<exists>t\<in>set alts. validate_types fmt t v strict = Inr None)"
    unfolding union_result [OF assms] by simp
  show "validate_types fmt (GenericAlias n alts s) v strict
        = Inr (Some (''must be an instance of '' @ s @ '', but received '' @ format_value fmt v))"
    if "\<forall>t\<in>set alts. validate_types fmt t v strict \<noteq> Inr None"
    unfolding union_result [OF assms] using that by simp
  show "validate_types fmt (GenericAlias n alts' s') v strict = Inr None
        \<longleftrightarrow> validate_types fmt (GenericAlias n alts s) v strict = Inr None"
    if perm: "mset alts' = mset alts \<and> startswith s' ''typing.Union''"
  proof -
    have set: "set alts' = set alts" using perm by (auto dest: mset_eq_setD)
    then have ret: "\<forall>t\<in>set alts'. returns (validate_types fmt t v strict)"
      using assms(5) by simp
    have "validate_types fmt (GenericAlias n alts' s') v strict = Inr None
          \<longleftrightarrow> (\<exists>t\<in>set alts'. validate_types fmt t v strict = Inr None)"
      using union_result [OF assms(1-3) _ ret, of s'] perm by simp
    then show ?thesis using iff set by simp
  qed
qed


theorem union_match_witness:
  "None \<noteq> Some ''List'' \<and> None \<noteq> Some ''Dict'' \<and> None \<noteq> Some ''Callable''
   \<and> startswith ''typing.Union[int, str]'' ''typing.Union''
   \<and> returns (validate_types sample_formatting (Class IntC) (VFloat 7 (- 1)) False)
   \<and> returns (validate_types sample_formatting (Class StrC) (VFloat 7 (- 1)) False)
   \<and> validate_types sample_formatting (Class IntC) (VFloat 7 (- 1)) False \<noteq> Inr None
   \<and> validate_types sample_formatting (Class StrC) (VFloat 7 (- 1)) False \<noteq> Inr None
   \<and> mset [Class StrC, Class IntC] = mset [Class IntC, Class StrC]
   \<and> startswith ''typing.Union[str, int]'' ''typing.Union''
   \<and> validate_types sample_formatting (typing_Union (Class IntC) [Class StrC]) (VFloat 7 (- 1)) False
       = Inr (Some (''must be an instance of typing.Union[int, str], but received ''
                    @ format_value sample_formatting (VFloat 7 (- 1))))
   \<and> validate_types sample_formatting (typing_Union (Class StrC) [Class IntC]) (VFloat 7 (- 1)) False
       \<noteq> Inr None
   \<and> validate_types sample_formatting (typing_Union (Class IntC) [Class StrC]) (VStr ''x'') False
       = Inr None"
  using union_match [of None "''typing.Union[int, str]''" "[Class IntC, Class StrC]"
      sample_formatting "VFloat 7 (- 1)" False "[Class StrC, Class IntC]" "''typing.Union[str, int]''"]
    union_match [of None "''typing.Union[int, str]''" "[Class IntC, Class StrC]"
      sample_formatting "VStr ''x''" False]
  by (simp add: typing_Union_def deduplicate_def startswith_def validate_types.simps(1)
        validate_type_def isinstance_def issubclass_def)

text \<open>
  Without the provisos the claim fails twice over. In strict mode, with an alternative
  the matcher does not know placed first, the integer \<open>3\<close> matches the alternative \<open>int\<close>
  and yet the match against the union raises, while with the same two alternatives in the
  other order it succeeds. And outside strict mode the union of \<open>int\<close> and \<open>NoneType\<close>
  prints as \<open>typing.Optional[int]\<close>, so the matcher does not take it for a union: the
  string \<open>x\<close> matches neither alternative and passes.
\<close>

theorem union_counterexample:
  "validate_types sample_formatting (Class IntC) (VInt 3) True = Inr None
   \<and> validate_types sample_formatting
        (typing_Union (typing_Tuple [Class IntC]) [Class IntC]) (VInt 3) True
       = Inl (RuntimeError ''Unknown type of typing.Tuple[int] (_name = Tuple)'')
   \<and> validate_types sample_formatting
        (typing_Union (Class IntC) [typing_Tuple [Class IntC]]) (VInt 3) True
       = Inr None
   \<and> typing_Union (Class IntC) [Class NoneTypeC]
       = GenericAlias (Some ''Optional'') [Class IntC, Class NoneTypeC] ''typing.Optional[int]''
   \<and> validate_types sample_formatting (Class IntC) (VStr ''x'') False
       = Inr (Some (''must be an instance of '' @ str_class IntC
                    @ '', but received '' @ str_class StrC))
   \<and> validate_types sample_formatting (Class NoneTypeC) (VStr ''x'') False
       = Inr (Some (''must be an instance of '' @ str_class NoneTypeC
                    @ '', but received '' @ str_class StrC))
   \<and> validate_types sample_formatting
        (typing_Union (Class IntC) [Class NoneTypeC]) (VStr ''x'') False
       = Inr None"
  by (simp add: typing_Union_def typing_Tuple_def deduplicate_def startswith_def
        validate_types.simps validate_sequential_types.simps validate_type_def
        isinstance_def issubclass_def)

section \<open>The aggregator reports every failing field\<close>

lemma update_new: "k \<notin> fst ` set al \<Longrightarrow> AList.update k v al = al @ [(k, v)]"
  by (induction al) auto

text \<open>The entries the loop adds for a list of fields.\<close>

lemma validate_fields_appends:
  assumes "\<forall>f\<in>set fs. returns (match_field fmt strict f)"
    and "distinct (map field_name fs)"
    and "fst ` set acc \<inter> field_name ` set fs = {}"
  shows "validate_fields fmt strict fs acc
         = Inr (acc @ map (\<lambda>f. (field_name f, failure_message (match_field fmt strict f)))
                        (failing_fields fmt strict fs))"
  using assms
proof (induction fs arbitrary: acc)
  case Nil
  then show ?case by (simp add: failing_fields_def)
next
  case (Cons f fs)
  from Cons.prems(1) obtain r where r: "validate_types fmt (field_type f) (field_value f) strict = Inr r"
    by (cases "validate_types fmt (field_type f) (field_value f) strict")
       (auto simp: match_field_def)
  have rest: "\<forall>g\<in>set fs. returns (match_field fmt strict g)" "distinct (map field_name fs)"
    using Cons.prems by auto
  show ?case
  proof (cases r)
    case None
    have "fst ` set acc \<inter> field_name ` set fs = {}" using Cons.prems(3) by auto
    then show ?thesis
      using r None Cons.IH [OF rest] by (simp add: failing_fields_def match_field_def)
  next
    case (Some m)
    have new: "field_name f \<notin> fst ` set acc" using Cons.prems(3) by auto
    have "fst ` set (acc @ [(field_name f, m)]) \<inter> field_name ` set fs = {}"
      using Cons.prems(2,3) by auto
    then show ?thesis
      using r Some Cons.IH [OF rest, of "acc @ [(field_name f, m)]"] update_new [OF new]
      by (simp add: failing_fields_def match_field_def)
  qed
qed

text \<open>
  Outside strict mode every field with a well-formed annotation over the classes of the
  model gets a verdict.
\<close>

lemma nonstrict_fields_return:
  assumes "\<forall>f\<in>set target. wf_annotation (field_type f)"
  shows "\<forall>f\<in>set target. returns (match_field fmt False f)"
  using assms by (simp add: match_field_def nonstrict_returns)

text \<open>An exception raised by the match of a field ends the loop and propagates.\<close>

lemma validate_fields_raises:
  assumes "\<forall>g\<in>set pre. returns (match_field fmt strict g)"
    and "match_field fmt strict f = Inl e"
  shows "validate_fields fmt strict (pre @ f # post) acc = Inl e"
  using assms
proof (induction pre arbitrary: acc)
  case Nil
  then show ?case by (simp add: match_field_def)
next
  case (Cons g pre)
  then obtain r where "validate_types fmt (field_type g) (field_value g) strict = Inr r"
    by (cases "validate_types fmt (field_type g) (field_value g) strict")
       (auto simp: match_field_def)
  then show ?case using Cons by simp
qed

text \<open>
  Claim C1, as amended. Take a record whose fields have distinct names and whose matches
  all return a verdict (none raises a configuration error). If \<open>k\<close> of its fields fail
  their match, \<open>dataclass_type_validator\<close> has checked every field and raises a
  \<open>TypeValidationError\<close> whose \<open>errors\<close> holds exactly \<open>k\<close> entries, one for each failing field
  under its name with its message, in declaration order; if \<open>k = 0\<close> it returns normally.
  When instead the match of a field raises, all fields before it having returned a
  verdict, that exception propagates at once, whatever the fields before and after it.
\<close>

theorem aggregation_reports_every_failure:
  "((\<forall>f\<in>set target. returns (match_field fmt strict f)) \<and> distinct (map field_name target)
      \<longrightarrow> dataclass_type_validator fmt target strict
          = (if failing_fields fmt strict target = [] then Inr ()
             else Inl (TypeValidationError ''Dataclass Type Validation Error''
                        (map (\<lambda>f. (field_name f, failure_message (match_field fmt strict f)))
                             (failing_fields fmt strict target))))
          \<and> distinct (map field_name (failing_fields fmt strict target)))
   \<and> ((\<forall>g\<in>set pre. returns (match_field fmt strict g)) \<and> match_field fmt strict f = Inl e
      \<longrightarrow> dataclass_type_validator fmt (pre @ f # post) strict = Inl e)"
proof (intro conjI impI)
  assume a: "(\<forall>f\<in>set target. returns (match_field fmt strict f))
             \<and> distinct (map field_name target)"
  then have ret: "\<forall>f\<in>set target. returns (match_field fmt strict f)"
    and dist: "distinct (map field_name target)"
    by simp_all
  show "dataclass_type_validator fmt target strict
          = (if failing_fields fmt strict target = [] then Inr ()
             else Inl (TypeValidationError ''Dataclass Type Validation Error''
                        (map (\<lambda>f. (field_name f, failure_message (match_field fmt strict f)))
                             (failing_fields fmt strict target))))"
    using validate_fields_appends [OF ret dist, of "[]"]
    by (simp add: dataclass_type_validator_def)
  show "distinct (map field_name (failing_fields fmt strict target))"
    using dist by (simp add: failing_fields_def distinct_map_filter)
next
  assume "(\<forall>g\<in>set pre. returns (match_field fmt strict g)) \<and> match_field fmt strict f = Inl e"
  then have "validate_fields fmt strict (pre @ f # post) [] = Inl e"
    using validate_fields_raises by blast
  then show "dataclass_type_validator fmt (pre @ f # post) strict = Inl e"
    by (simp add: dataclass_type_validator_def)
qed

theorem aggregation_reports_every_failure_witness:
  "returns (match_field sample_formatting False
       \<lparr>field_name = ''name'', field_type = Class StrC, field_value = VStr ''Alice''\<rparr>)
   \<and> returns (match_field sample_formatting False
       \<lparr>field_name = ''age'', field_type = Class IntC, field_value = VStr ''30''\<rparr>)
   \<and> distinct (map field_name
        [\<lparr>field_name = ''name'', field_type = Class StrC, field_value = VStr ''Alice''\<rparr>,
         \<lparr>field_name = ''age'', field_type = Class IntC, field_value = VStr ''30''\<rparr>])
   \<and> dataclass_type_validator sample_formatting
        [\<lparr>field_name = ''name'', field_type = Class StrC, field_value = VStr ''Alice''\<rparr>,
         \<lparr>field_name = ''age'', field_type = Class IntC, field_value = VStr ''30''\<rparr>] False
       = Inl (TypeValidationError ''Dataclass Type Validation Error''
               [(''age'', ''must be an instance of '' @ str_class IntC
                          @ '', but received '' @ str_class StrC)])
   \<and> returns (match_field sample_formatting True
       \<lparr>field_name = ''name'', field_type = Class StrC, field_value = VStr ''Alice''\<rparr>)
   \<and> match_field sample_formatting True
       \<lparr>field_name = ''pair'', field_type = typing_Tuple [Class IntC], field_value = VTuple [VInt 1]\<rparr>
       = Inl (RuntimeError ''Unknown type of typing.Tuple[int] (_name = Tuple)'')
   \<and> dataclass_type_validator sample_formatting
        ([\<lparr>field_name = ''name'', field_type = Class StrC, field_value = VStr ''Alice''\<rparr>]
         @ \<lparr>field_name = ''pair'', field_type = typing_Tuple [Class IntC], field_value = VTuple [VInt 1]\<rparr>
         # [\<lparr>field_name = ''age'', field_type = Class IntC, field_value = VStr ''30''\<rparr>]) True
       = Inl (RuntimeError ''Unknown type of typing.Tuple[int] (_name = Tuple)'')"
  using aggregation_reports_every_failure [where
      target = "[\<lparr>field_name = ''name'', field_type = Class StrC, field_value = VStr ''Alice''\<rparr>,
                 \<lparr>field_name = ''age'', field_type = Class IntC, field_value = VStr ''30''\<rparr>]"
      and fmt = sample_formatting and strict = False and pre = "[]"]
    aggregation_reports_every_failure [where
      target = "[]" and fmt = sample_formatting and strict = True
      and pre = "[\<lparr>field_name = ''name'', field_type = Class StrC, field_value = VStr ''Alice''\<rparr>]"
      and f = "\<lparr>field_name = ''pair'', field_type = typing_Tuple [Class IntC], field_value = VTuple [VInt 1]\<rparr>"
      and e = "RuntimeError ''Unknown type of typing.Tuple[int] (_name = Tuple)''"
      and post = "[\<lparr>field_name = ''age'', field_type = Class IntC, field_value = VStr ''30''\<rparr>]"]
  by (simp add: match_field_def failing_fields_def typing_Tuple_def startswith_def
        validate_types.simps validate_sequential_types.simps validate_type_def
        isinstance_def issubclass_def)

text \<open>
  Without the proviso the claim fails in strict mode: the first field below raises a
  configuration error, which ends the loop, so the one field that fails its match is
  never reported and no \<open>TypeValidationError\<close> is raised.
\<close>

theorem aggregation_configuration_error_counterexample:
  "failing_fields sample_formatting True
      [\<lparr>field_name = ''a'', field_type = typing_Tuple [Class IntC], field_value = VTuple [VInt 1]\<rparr>,
       \<lparr>field_name = ''b'', field_type = Class IntC, field_value = VStr ''x''\<rparr>]
     = [\<lparr>field_name = ''b'', field_type = Class IntC, field_value = VStr ''x''\<rparr>]
   \<and> dataclass_type_validator sample_formatting
        [\<lparr>field_name = ''a'', field_type = typing_Tuple [Class IntC], field_value = VTuple [VInt 1]\<rparr>,
         \<lparr>field_name = ''b'', field_type = Class IntC, field_value = VStr ''x''\<rparr>] True
       = Inl (RuntimeError ''Unknown type of typing.Tuple[int] (_name = Tuple)'')"
  by (simp add: failing_fields_def match_field_def dataclass_type_validator_def typing_Tuple_def
        startswith_def validate_types.simps validate_sequential_types.simps validate_type_def
        isinstance_def issubclass_def)

section \<open>Strict mode and annotations the matcher does not know\<close>

text \<open>
  A generic alias that is none of \<open>List\<close>, \<open>Dict\<close>, \<open>Callable\<close> or a \<open>Union\<close> raises
  \<open>RuntimeError\<close> in strict mode, whatever the value, and passes otherwise.
\<close>

lemma strict_unknown_alias:
  assumes "n \<noteq> Some ''List''" "n \<noteq> Some ''Dict''" "n \<noteq> Some ''Callable''"
    and "\<not> startswith s ''typing.Union''"
  shows "validate_types fmt (GenericAlias n args s) v True
         = Inl (RuntimeError (''Unknown type of '' @ s @ '' (_name = '' @ str_name n @ '')''))"
    and "validate_types fmt (GenericAlias n args s) v False = Inr None"
  using assms by (simp_all add: validate_types.simps validate_sequential_types.simps)

text \<open>
  Claim C2 says that in strict mode every descriptor outside the matcher's grammar raises a
  configuration error. The strict test sits in \<open>_validate_sequential_types\<close> only: an
  annotation that is neither a class nor a generic alias, such as a forward reference
  written as a string, falls through \<open>_validate_types\<close>, and validation passes in strict
  mode whatever the value.
\<close>

theorem strict_ignores_other_annotation:
  "validate_types fmt (OtherAnnotation a) v True = Inr None
   \<and> dataclass_type_validator fmt
        [\<lparr>field_name = x, field_type = OtherAnnotation a, field_value = v\<rparr>] True = Inr ()"
  by (simp add: validate_types.simps dataclass_type_validator_def)

section \<open>The decorator and \<open>before_post_init\<close>\<close>

text \<open>
  With \<open>before_post_init\<close> set, the decorator wraps \<open>__init__\<close>. The wrapper validates
  after the original \<open>__init__\<close> has returned, and the original \<open>__init__\<close> has by then
  run \<open>__post_init__\<close>: validation comes after the body of \<open>__post_init__\<close>, exactly as
  without the option.
\<close>

lemma before_post_init_has_no_effect:
  assumes "dc_init cls = GeneratedInit" and "dc_post_init cls = Some (UserPostInit body)"
    and "length args = length (dc_fields cls)"
  shows "construct fmt (dataclass_validate cls strict True) args
         = (case method_wrapper fmt strict ([PostInitBody], body (assign_fields (dc_fields cls) args)) of
              (tr, r) \<Rightarrow> (FieldsAssigned # tr, r))"
    and "construct fmt (dataclass_validate cls strict True) args
         = construct fmt (dataclass_validate cls strict False) args"
proof -
  let ?self = "assign_fields (dc_fields cls) args"
  have a: "construct fmt (dataclass_validate cls strict True) args
        = method_wrapper fmt strict (FieldsAssigned # [PostInitBody], body ?self)"
    using assms by (simp add: construct_def dataclass_validate_def)
  have b: "construct fmt (dataclass_validate cls strict False) args
        = (case method_wrapper fmt strict ([PostInitBody], body ?self) of
              (tr, r) \<Rightarrow> (FieldsAssigned # tr, r))"
    using assms by (simp add: construct_def dataclass_validate_def)
  have c: "method_wrapper fmt strict (FieldsAssigned # tr, r)
           = (case method_wrapper fmt strict (tr, r) of (tr', r') \<Rightarrow> (FieldsAssigned # tr', r'))"
    for tr r
    by (cases r) (auto split: sum.splits)
  show "construct fmt (dataclass_validate cls strict True) args
         = (case method_wrapper fmt strict ([PostInitBody], body ?self) of
              (tr, r) \<Rightarrow> (FieldsAssigned # tr, r))"
    unfolding a c ..
  then show "construct fmt (dataclass_validate cls strict True) args
         = construct fmt (dataclass_validate cls strict False) args"
    unfolding b .
qed

text \<open>
  Claim C3 says that with \<open>before_post_init\<close> validation runs right after the fields are
  assigned and before the custom \<open>__post_init__\<close>, a failure surfacing as
  \<open>TypeValidationError\<close>. On the example class, built with the string \<open>abc\<close> for its
  \<open>int\<close> field, the fields as assigned fail validation; yet construction succeeds, because
  \<open>__post_init__\<close> has replaced the string by its length before validation runs.
\<close>

theorem before_post_init_validates_after_post_init:
  "construct fmt (dataclass_validate example_class strict True) [VStr ''abc'']
     = ([FieldsAssigned, PostInitBody, Validation],
        Inr [\<lparr>field_name = ''x'', field_type = Class IntC, field_value = VInt 3\<rparr>])
   \<and> dataclass_type_validator fmt (assign_fields (dc_fields example_class) [VStr ''abc'']) strict
     = Inl (TypeValidationError ''Dataclass Type Validation Error''
             [(''x'', ''must be an instance of '' @ str_class IntC
                      @ '', but received '' @ str_class StrC)])"
  by (simp add: construct_def dataclass_validate_def example_class_def example_post_init_def
        dataclass_type_validator_def validate_types.simps(1) validate_type_def
        isinstance_def issubclass_def)

end
